theory Spec2Isabelle
  imports Main "HOL-Library.Word"
begin

section \<open>The MAC dispatch layer of crypto/evp/mac\_lib.c\<close>

text \<open>
  The file implements the generic lifecycle of a MAC context on top of a method table.
  The model is a shallow embedding with an explicit world: a heap holding the objects
  the dispatch layer allocates, reads or writes itself, the private world of the
  algorithm implementation (which only the entries of the method table touch), and a
  log of every call that leaves the dispatch layer. A C function becomes a function
  from the world to either a crash or a result with the new world.
\<close>

subsection \<open>Values, pointers and crashes\<close>

type_synonym addr = nat
type_synonym byte = "8 word"

text \<open>A C pointer: \<open>None\<close> is \<open>NULL\<close>, \<open>Some a\<close> is the address \<open>a\<close>.\<close>

type_synonym ptr = "addr option"

text \<open>
  Undefined behaviour of the C program is a value: reading or writing through \<open>NULL\<close>,
  and using or releasing an address that holds no live object of the expected kind.
\<close>

datatype error = Null_Deref | Bad_Pointer

text \<open>
  One argument of the variadic tail of \<open>EVP_MAC_ctrl\<close>. Read-only memory handed in by
  the caller is modelled by its content: a C string by the text it holds, a byte
  buffer by its bytes (\<open>None\<close> for \<open>NULL\<close> in both); a \<open>size_t\<close> is a natural number.
\<close>

datatype arg = Arg_str "string option" | Arg_mem "byte list option" | Arg_size nat

subsection \<open>The method table and the context\<close>

text \<open>
  \<open>struct evp_mac_st\<close> is declared in a header that is not among the sources; the
  record lists the entries mac\_lib.c calls, with the arguments and results it uses
  them with (field \<open>mac_new\<close> is the entry \<open>new\<close>, and so on). Every entry runs on
  the implementation's private world \<open>'w\<close>. The entries \<open>ctrl\<close> and \<open>ctrl_str\<close> are
  the two the code tests against \<open>NULL\<close>, so they are optional; the others are called
  without a test. The status results are C \<open>int\<close>s that the dispatch layer only
  compares and passes on, so they are unbounded integers here.
\<close>

record 'w EVP_MAC =
  mac_new :: "'w \<Rightarrow> ptr \<times> 'w"
  mac_free :: "ptr \<Rightarrow> 'w \<Rightarrow> 'w"
  mac_copy :: "ptr \<Rightarrow> 'w \<Rightarrow> ptr \<times> 'w"
  mac_reset :: "ptr \<Rightarrow> 'w \<Rightarrow> int \<times> 'w"
  mac_size :: "ptr \<Rightarrow> 'w \<Rightarrow> nat \<times> 'w"
  mac_init :: "ptr \<Rightarrow> 'w \<Rightarrow> int \<times> 'w"
  mac_update :: "ptr \<Rightarrow> byte list option \<Rightarrow> nat \<Rightarrow> 'w \<Rightarrow> int \<times> 'w"
  mac_final :: "ptr \<Rightarrow> ptr \<Rightarrow> 'w \<Rightarrow> int \<times> 'w"
  mac_ctrl :: "(ptr \<Rightarrow> int \<Rightarrow> arg list \<Rightarrow> 'w \<Rightarrow> int \<times> 'w) option"
  mac_ctrl_str :: "(ptr \<Rightarrow> string option \<Rightarrow> string option \<Rightarrow> 'w \<Rightarrow> int \<times> 'w) option"

text \<open>
  \<open>struct evp_mac_ctx_st\<close>: the reference to the method table (\<open>None\<close> is \<open>NULL\<close>;
  the table is immutable, so the reference is modelled by the table it points to) and
  the pointer to the private state.
\<close>

record 'w EVP_MAC_CTX =
  meth :: "'w EVP_MAC option"
  data :: ptr

subsection \<open>The world\<close>

datatype 'w obj = Obj_ctx "'w EVP_MAC_CTX" | Obj_buf "byte list" | Obj_size nat

text \<open>Calls that leave the dispatch layer, in the order they happen.\<close>

datatype err_func =
  EVP_F_EVP_MAC_CTX_NEW | EVP_F_EVP_MAC_CTX_COPY | EVP_F_EVP_MAC_CTRL | EVP_F_EVP_MAC_CTRL_STR

datatype err_reason = ERR_R_MALLOC_FAILURE | EVP_R_COMMAND_NOT_SUPPORTED

datatype event =
    Ev_new
  | Ev_free ptr
  | Ev_copy ptr
  | Ev_reset ptr
  | Ev_size ptr
  | Ev_init ptr
  | Ev_update ptr "byte list option" nat
  | Ev_final ptr ptr
  | Ev_ctrl ptr int "arg list"
  | Ev_ctrl_str ptr "string option" "string option"
  | Ev_released addr
  | Ev_EVPerr err_func err_reason

text \<open>
  The heap is a list of cells; an address is an index, a released cell is \<open>None\<close>
  and is never handed out again. \<open>alloc_plan\<close> fixes the outcome of the coming
  allocation requests (\<open>False\<close>: the request fails); once it is used up, requests
  succeed.
\<close>

record 'w world =
  heap :: "'w obj option list"
  alloc_plan :: "bool list"
  impl :: 'w
  trace :: "event list"

type_synonym ('a, 'w) prog = "'w world \<Rightarrow> error + ('a \<times> 'w world)"

definition ret :: "'a \<Rightarrow> ('a, 'w) prog" where
  "ret x s = Inr (x, s)"

definition crash :: "error \<Rightarrow> ('a, 'w) prog" where
  "crash e s = Inl e"

definition bindE :: "('a, 'w) prog \<Rightarrow> ('a \<Rightarrow> ('b, 'w) prog) \<Rightarrow> ('b, 'w) prog" where
  "bindE m f s = (case m s of Inl e \<Rightarrow> Inl e | Inr (x, s') \<Rightarrow> f x s')"

definition log_event :: "event \<Rightarrow> (unit, 'w) prog" where
  "log_event e s = Inr ((), s\<lparr>trace := trace s @ [e]\<rparr>)"

text \<open>The live object at an address of a heap, if there is one.\<close>

definition cell :: "'w obj option list \<Rightarrow> addr \<Rightarrow> 'w obj option" where
  "cell h a = (if a < length h then h ! a else None)"

subsection \<open>Memory\<close>

text \<open>
  Modelled from the spec: the allocator (\<open>OPENSSL_zalloc\<close>, \<open>OPENSSL_free\<close>) is not
  among the sources. A request either fails with \<open>NULL\<close> or returns a fresh address;
  \<open>OPENSSL_zalloc(sizeof(EVP_MAC_CTX))\<close> returns a context with both fields zero.
  Releasing \<open>NULL\<close> does nothing; releasing an address that is not live is a crash.
\<close>

definition alloc_succeeds :: "'w world \<Rightarrow> bool" where
  "alloc_succeeds s = (case alloc_plan s of [] \<Rightarrow> True | b # plan \<Rightarrow> b)"

definition alloc :: "'w obj \<Rightarrow> (ptr, 'w) prog" where
  "alloc ob s =
     (if alloc_succeeds s
      then Inr (Some (length (heap s)),
                s\<lparr>heap := heap s @ [Some ob], alloc_plan := tl (alloc_plan s)\<rparr>)
      else Inr (None, s\<lparr>alloc_plan := tl (alloc_plan s)\<rparr>))"

definition OPENSSL_zalloc_ctx :: "(ptr, 'w) prog" where
  "OPENSSL_zalloc_ctx = alloc (Obj_ctx \<lparr>meth = None, data = None\<rparr>)"

definition OPENSSL_free :: "ptr \<Rightarrow> (unit, 'w) prog" where
  "OPENSSL_free p s =
     (case p of
        None \<Rightarrow> Inr ((), s)
      | Some a \<Rightarrow>
          (case cell (heap s) a of
             None \<Rightarrow> Inl Bad_Pointer
           | Some ob \<Rightarrow> Inr ((), s\<lparr>heap := (heap s)[a := None], trace := trace s @ [Ev_released a]\<rparr>)))"

text \<open>Reading and writing a context through a pointer.\<close>

definition load_ctx :: "ptr \<Rightarrow> ('w EVP_MAC_CTX, 'w) prog" where
  "load_ctx p s =
     (case p of
        None \<Rightarrow> Inl Null_Deref
      | Some a \<Rightarrow> (case cell (heap s) a of Some (Obj_ctx c) \<Rightarrow> Inr (c, s) | _ \<Rightarrow> Inl Bad_Pointer))"

definition store_ctx :: "ptr \<Rightarrow> 'w EVP_MAC_CTX \<Rightarrow> (unit, 'w) prog" where
  "store_ctx p c s =
     (case p of
        None \<Rightarrow> Inl Null_Deref
      | Some a \<Rightarrow>
          (case cell (heap s) a of
             Some (Obj_ctx c0) \<Rightarrow> Inr ((), s\<lparr>heap := (heap s)[a := Some (Obj_ctx c)]\<rparr>)
           | _ \<Rightarrow> Inl Bad_Pointer))"

text \<open>\<open>ctx->data = d\<close> and \<open>ctx->meth = m\<close>.\<close>

definition set_data :: "ptr \<Rightarrow> ptr \<Rightarrow> (unit, 'w) prog" where
  "set_data p d = bindE (load_ctx p) (\<lambda>c. store_ctx p (c\<lparr>data := d\<rparr>))"

definition set_meth :: "ptr \<Rightarrow> 'w EVP_MAC option \<Rightarrow> (unit, 'w) prog" where
  "set_meth p m = bindE (load_ctx p) (\<lambda>c. store_ctx p (c\<lparr>meth := m\<rparr>))"

text \<open>\<open>ctx->data\<close>, and \<open>ctx->meth\<close> followed through to the table.\<close>

definition get_data :: "ptr \<Rightarrow> (ptr, 'w) prog" where
  "get_data p = bindE (load_ctx p) (\<lambda>c. ret (data c))"

definition deref_meth :: "'w EVP_MAC option \<Rightarrow> ('w EVP_MAC, 'w) prog" where
  "deref_meth m = (case m of None \<Rightarrow> crash Null_Deref | Some t \<Rightarrow> ret t)"

definition get_meth :: "ptr \<Rightarrow> ('w EVP_MAC, 'w) prog" where
  "get_meth p = bindE (load_ctx p) (\<lambda>c. deref_meth (meth c))"

text \<open>\<open>*poutlen = n\<close>.\<close>

definition store_size :: "ptr \<Rightarrow> nat \<Rightarrow> (unit, 'w) prog" where
  "store_size p n s =
     (case p of
        None \<Rightarrow> Inl Null_Deref
      | Some a \<Rightarrow>
          (case cell (heap s) a of
             Some (Obj_size n0) \<Rightarrow> Inr ((), s\<lparr>heap := (heap s)[a := Some (Obj_size n)]\<rparr>)
           | _ \<Rightarrow> Inl Bad_Pointer))"

text \<open>
  Modelled from the spec: the error-reporting facility is not among the sources;
  \<open>EVPerr\<close> records the function and the reason.
\<close>

definition EVPerr :: "err_func \<Rightarrow> err_reason \<Rightarrow> (unit, 'w) prog" where
  "EVPerr f r = log_event (Ev_EVPerr f r)"

subsection \<open>Calling the entries of the method table\<close>

text \<open>Each call runs the entry on the implementation's world and is logged.\<close>

definition call_new :: "'w EVP_MAC \<Rightarrow> (ptr, 'w) prog" where
  "call_new m s =
     (let (d, w) = mac_new m (impl s) in Inr (d, s\<lparr>impl := w, trace := trace s @ [Ev_new]\<rparr>))"

definition call_free :: "'w EVP_MAC \<Rightarrow> ptr \<Rightarrow> (unit, 'w) prog" where
  "call_free m d s =
     Inr ((), s\<lparr>impl := mac_free m d (impl s), trace := trace s @ [Ev_free d]\<rparr>)"

definition call_copy :: "'w EVP_MAC \<Rightarrow> ptr \<Rightarrow> (ptr, 'w) prog" where
  "call_copy m d s =
     (let (d', w) = mac_copy m d (impl s) in Inr (d', s\<lparr>impl := w, trace := trace s @ [Ev_copy d]\<rparr>))"

definition call_reset :: "'w EVP_MAC \<Rightarrow> ptr \<Rightarrow> (int, 'w) prog" where
  "call_reset m d s =
     (let (r, w) = mac_reset m d (impl s) in Inr (r, s\<lparr>impl := w, trace := trace s @ [Ev_reset d]\<rparr>))"

definition call_size :: "'w EVP_MAC \<Rightarrow> ptr \<Rightarrow> (nat, 'w) prog" where
  "call_size m d s =
     (let (n, w) = mac_size m d (impl s) in Inr (n, s\<lparr>impl := w, trace := trace s @ [Ev_size d]\<rparr>))"

definition call_init :: "'w EVP_MAC \<Rightarrow> ptr \<Rightarrow> (int, 'w) prog" where
  "call_init m d s =
     (let (r, w) = mac_init m d (impl s) in Inr (r, s\<lparr>impl := w, trace := trace s @ [Ev_init d]\<rparr>))"

definition call_update :: "'w EVP_MAC \<Rightarrow> ptr \<Rightarrow> byte list option \<Rightarrow> nat \<Rightarrow> (int, 'w) prog" where
  "call_update m d bs n s =
     (let (r, w) = mac_update m d bs n (impl s)
      in Inr (r, s\<lparr>impl := w, trace := trace s @ [Ev_update d bs n]\<rparr>))"

definition call_final :: "'w EVP_MAC \<Rightarrow> ptr \<Rightarrow> ptr \<Rightarrow> (int, 'w) prog" where
  "call_final m d out s =
     (let (r, w) = mac_final m d out (impl s)
      in Inr (r, s\<lparr>impl := w, trace := trace s @ [Ev_final d out]\<rparr>))"

definition call_ctrl ::
  "(ptr \<Rightarrow> int \<Rightarrow> arg list \<Rightarrow> 'w \<Rightarrow> int \<times> 'w) \<Rightarrow> ptr \<Rightarrow> int \<Rightarrow> arg list \<Rightarrow> (int, 'w) prog" where
  "call_ctrl f d cmd args s =
     (let (r, w) = f d cmd args (impl s)
      in Inr (r, s\<lparr>impl := w, trace := trace s @ [Ev_ctrl d cmd args]\<rparr>))"

definition call_ctrl_str ::
  "(ptr \<Rightarrow> string option \<Rightarrow> string option \<Rightarrow> 'w \<Rightarrow> int \<times> 'w) \<Rightarrow>
     ptr \<Rightarrow> string option \<Rightarrow> string option \<Rightarrow> (int, 'w) prog" where
  "call_ctrl_str f d ty v s =
     (let (r, w) = f d ty v (impl s)
      in Inr (r, s\<lparr>impl := w, trace := trace s @ [Ev_ctrl_str d ty v]\<rparr>))"

subsection \<open>Context lifecycle\<close>

text \<open>
  \<open>EVP_MAC_CTX_new\<close>. The disjunction \<open>ctx == NULL || (ctx->data = mac->new()) == NULL\<close>
  evaluates its second operand only when the allocation succeeded. The assignment
  \<open>ctx->meth = mac\<close> follows the \<open>if\<close> on every path.
\<close>

definition EVP_MAC_CTX_new :: "'w EVP_MAC option \<Rightarrow> (ptr, 'w) prog" where
  "EVP_MAC_CTX_new mac =
     bindE OPENSSL_zalloc_ctx (\<lambda>ctx0.
     bindE (if ctx0 = None then ret True
            else bindE (deref_meth mac) (\<lambda>m.
                 bindE (call_new m) (\<lambda>d.
                 bindE (set_data ctx0 d) (\<lambda>_. ret (d = None))))) (\<lambda>failed.
     bindE (if failed
            then bindE (EVPerr EVP_F_EVP_MAC_CTX_NEW ERR_R_MALLOC_FAILURE) (\<lambda>_.
                 bindE (OPENSSL_free ctx0) (\<lambda>_. ret None))
            else ret ctx0) (\<lambda>ctx.
     bindE (set_meth ctx mac) (\<lambda>_. ret ctx))))"

definition evp_mac_ctx_cleanup :: "ptr \<Rightarrow> (unit, 'w) prog" where
  "evp_mac_ctx_cleanup ctx =
     (if ctx = None then ret ()
      else bindE (load_ctx ctx) (\<lambda>c.
           if data c \<noteq> None
           then bindE (deref_meth (meth c)) (\<lambda>m.
                bindE (call_free m (data c)) (\<lambda>_. set_data ctx None))
           else ret ()))"

definition EVP_MAC_CTX_free :: "ptr \<Rightarrow> (unit, 'w) prog" where
  "EVP_MAC_CTX_free ctx = bindE (evp_mac_ctx_cleanup ctx) (\<lambda>_. OPENSSL_free ctx)"

text \<open>
  \<open>EVP_MAC_CTX_copy\<close>: the structure assignment \<open>*dst = *src\<close>, then the duplicate
  of the private state when the source has one.
\<close>

definition EVP_MAC_CTX_copy :: "ptr \<Rightarrow> ptr \<Rightarrow> (int, 'w) prog" where
  "EVP_MAC_CTX_copy dst src =
     bindE (load_ctx src) (\<lambda>c.
     bindE (store_ctx dst c) (\<lambda>_.
     bindE (get_data src) (\<lambda>sd.
     if sd \<noteq> None
     then bindE (get_meth dst) (\<lambda>m.
          bindE (get_data src) (\<lambda>sd'.
          bindE (call_copy m sd') (\<lambda>d.
          bindE (set_data dst d) (\<lambda>_.
          if d = None
          then bindE (EVPerr EVP_F_EVP_MAC_CTX_COPY ERR_R_MALLOC_FAILURE) (\<lambda>_. ret 0)
          else ret 1))))
     else ret 1)))"

definition EVP_MAC_reset :: "ptr \<Rightarrow> (int, 'w) prog" where
  "EVP_MAC_reset ctx =
     bindE (load_ctx ctx) (\<lambda>c.
     if data c \<noteq> None
     then bindE (deref_meth (meth c)) (\<lambda>m. call_reset m (data c))
     else ret 1)"

subsection \<open>Streaming operations\<close>

definition EVP_MAC_size :: "ptr \<Rightarrow> (nat, 'w) prog" where
  "EVP_MAC_size ctx =
     bindE (load_ctx ctx) (\<lambda>c.
     if data c \<noteq> None
     then bindE (deref_meth (meth c)) (\<lambda>m. call_size m (data c))
     else ret 0)"

definition EVP_MAC_init :: "ptr \<Rightarrow> (int, 'w) prog" where
  "EVP_MAC_init ctx =
     bindE (get_meth ctx) (\<lambda>m. bindE (get_data ctx) (\<lambda>d. call_init m d))"

definition EVP_MAC_update :: "ptr \<Rightarrow> byte list option \<Rightarrow> nat \<Rightarrow> (int, 'w) prog" where
  "EVP_MAC_update ctx bs datalen =
     bindE (get_meth ctx) (\<lambda>m. bindE (get_data ctx) (\<lambda>d. call_update m d bs datalen))"

definition EVP_MAC_final :: "ptr \<Rightarrow> ptr \<Rightarrow> ptr \<Rightarrow> (int, 'w) prog" where
  "EVP_MAC_final ctx out poutlen =
     bindE (if poutlen \<noteq> None
            then bindE (get_meth ctx) (\<lambda>m.
                 bindE (get_data ctx) (\<lambda>d.
                 bindE (call_size m d) (\<lambda>n. store_size poutlen n)))
            else ret ()) (\<lambda>_.
     if out = None then ret 1
     else bindE (get_meth ctx) (\<lambda>m. bindE (get_data ctx) (\<lambda>d. call_final m d out)))"

subsection \<open>The control router and its wrappers\<close>

text \<open>
  \<open>EVP_MAC_ctrl\<close>. The \<open>switch\<close> has the \<open>default\<close> case only (the other one is
  compiled out), so the initial \<open>ok = -1\<close> is always overwritten.
\<close>

definition EVP_MAC_ctrl :: "ptr \<Rightarrow> int \<Rightarrow> arg list \<Rightarrow> (int, 'w) prog" where
  "EVP_MAC_ctrl ctx cmd args =
     (if ctx = None
      then bindE (EVPerr EVP_F_EVP_MAC_CTRL EVP_R_COMMAND_NOT_SUPPORTED) (\<lambda>_. ret (- 2))
      else bindE (load_ctx ctx) (\<lambda>c.
           case meth c of
             None \<Rightarrow> bindE (EVPerr EVP_F_EVP_MAC_CTRL EVP_R_COMMAND_NOT_SUPPORTED) (\<lambda>_. ret (- 2))
           | Some m \<Rightarrow>
               bindE (case mac_ctrl m of
                        Some f \<Rightarrow> call_ctrl f (data c) cmd args
                      | None \<Rightarrow> ret (- 2)) (\<lambda>ok.
               bindE (if ok = - 2
                      then EVPerr EVP_F_EVP_MAC_CTRL EVP_R_COMMAND_NOT_SUPPORTED
                      else ret ()) (\<lambda>_. ret ok))))"

definition EVP_MAC_ctrl_str :: "ptr \<Rightarrow> string option \<Rightarrow> string option \<Rightarrow> (int, 'w) prog" where
  "EVP_MAC_ctrl_str ctx ty v =
     (if ctx = None
      then bindE (EVPerr EVP_F_EVP_MAC_CTRL_STR EVP_R_COMMAND_NOT_SUPPORTED) (\<lambda>_. ret (- 2))
      else bindE (load_ctx ctx) (\<lambda>c.
           case meth c of
             None \<Rightarrow> bindE (EVPerr EVP_F_EVP_MAC_CTRL_STR EVP_R_COMMAND_NOT_SUPPORTED) (\<lambda>_. ret (- 2))
           | Some m \<Rightarrow>
               (case mac_ctrl_str m of
                  None \<Rightarrow>
                    bindE (EVPerr EVP_F_EVP_MAC_CTRL_STR EVP_R_COMMAND_NOT_SUPPORTED) (\<lambda>_. ret (- 2))
                | Some f \<Rightarrow>
                    bindE (call_ctrl_str f (data c) ty v) (\<lambda>ok.
                    bindE (if ok = - 2
                           then EVPerr EVP_F_EVP_MAC_CTRL_STR EVP_R_COMMAND_NOT_SUPPORTED
                           else ret ()) (\<lambda>_. ret ok)))))"

definition INT_MAX :: int where
  "INT_MAX = 2147483647"

text \<open>
  \<open>strlen\<close>: a C string is modelled by the text before its terminating NUL, so its
  length is the length of the list; \<open>strlen(NULL)\<close> is a crash.
\<close>

definition strlen :: "string option \<Rightarrow> (nat, 'w) prog" where
  "strlen v = (case v of None \<Rightarrow> crash Null_Deref | Some t \<Rightarrow> ret (length t))"

definition EVP_MAC_str2ctrl :: "ptr \<Rightarrow> int \<Rightarrow> string option \<Rightarrow> (int, 'w) prog" where
  "EVP_MAC_str2ctrl ctx cmd v =
     bindE (strlen v) (\<lambda>len.
     if int len > INT_MAX then ret (- 1)
     else EVP_MAC_ctrl ctx cmd [Arg_str v, Arg_size len])"

text \<open>
  Modelled from the spec: \<open>OPENSSL_hexstr2buf\<close> is not among the sources. It is the
  external decoder \<open>decode\<close> (hex string to bytes, or failure), which is a parameter;
  on success the bytes are returned in a newly allocated buffer that the caller owns,
  together with their number, and on failure (of the decoding or of the allocation)
  the result is \<open>NULL\<close> and the length is not meaningful.
\<close>

definition OPENSSL_hexstr2buf ::
  "(string option \<Rightarrow> byte list option) \<Rightarrow> string option \<Rightarrow> (ptr \<times> int, 'w) prog" where
  "OPENSSL_hexstr2buf decode hex =
     (case decode hex of
        None \<Rightarrow> ret (None, 0)
      | Some bs \<Rightarrow> bindE (alloc (Obj_buf bs)) (\<lambda>p. ret (p, int (length bs))))"

definition load_buf :: "ptr \<Rightarrow> (byte list, 'w) prog" where
  "load_buf p s =
     (case p of
        None \<Rightarrow> Inl Null_Deref
      | Some a \<Rightarrow> (case cell (heap s) a of Some (Obj_buf bs) \<Rightarrow> Inr (bs, s) | _ \<Rightarrow> Inl Bad_Pointer))"

text \<open>
  \<open>EVP_MAC_hex2ctrl\<close>. The buffer \<open>bin\<close> is passed to the router as the bytes it holds
  at the call; \<open>(size_t)binlen\<close> is the conversion of a length that is not negative.
\<close>

definition EVP_MAC_hex2ctrl ::
  "(string option \<Rightarrow> byte list option) \<Rightarrow> ptr \<Rightarrow> int \<Rightarrow> string option \<Rightarrow> (int, 'w) prog" where
  "EVP_MAC_hex2ctrl decode ctx cmd hex =
     bindE (OPENSSL_hexstr2buf decode hex) (\<lambda>(bin, binlen).
     if bin = None then ret 0
     else bindE (if binlen \<le> INT_MAX
                 then bindE (load_buf bin) (\<lambda>bs.
                      EVP_MAC_ctrl ctx cmd [Arg_mem (Some bs), Arg_size (nat binlen)])
                 else ret (- 1)) (\<lambda>rv.
          bindE (OPENSSL_free bin) (\<lambda>_. ret rv)))"

subsection \<open>One-shot computation\<close>

text \<open>
  \<open>EVP_MAC_oneshot\<close>. The macro \<open>EVP_MAC_CTRL_SET_KEY\<close> is defined in a header that is
  not among the sources; its value is the parameter \<open>set_key\<close>. Each operand of the
  chain of \<open>||\<close> is evaluated only when all the earlier ones were false, and \<open>!r\<close> is
  true exactly when \<open>r\<close> is zero.
\<close>

definition EVP_MAC_oneshot ::
  "int \<Rightarrow> 'w EVP_MAC option \<Rightarrow> byte list option \<Rightarrow> nat \<Rightarrow> byte list option \<Rightarrow> nat \<Rightarrow>
     ptr \<Rightarrow> ptr \<Rightarrow> (int, 'w) prog" where
  "EVP_MAC_oneshot set_key mac key keylen bs datalen out poutlen =
     bindE (EVP_MAC_CTX_new mac) (\<lambda>ctx.
     bindE (if ctx = None then ret 0
            else bindE (EVP_MAC_init ctx) (\<lambda>r1.
                 if r1 = 0 then ret 0
                 else bindE (EVP_MAC_ctrl ctx set_key [Arg_mem key, Arg_size keylen]) (\<lambda>r2.
                 if r2 = 0 then ret 0
                 else bindE (EVP_MAC_update ctx bs datalen) (\<lambda>r3.
                 if r3 = 0 then ret 0
                 else bindE (EVP_MAC_final ctx out poutlen) (\<lambda>r4.
                 if r4 = 0 then ret 0 else ret 1))))) (\<lambda>ok.
     bindE (EVP_MAC_CTX_free ctx) (\<lambda>_. ret ok)))"

subsection \<open>A small method table to run the operations on\<close>

text \<open>
  A toy algorithm whose world is the number of private states it has handed out: every
  \<open>new\<close> and \<open>copy\<close> returns the next one, the tag has four bytes, and the only
  command it knows is number 1.
\<close>

definition demo_mac :: "nat EVP_MAC" where
  "demo_mac =
     \<lparr>mac_new = (\<lambda>w. (Some w, Suc w)),
      mac_free = (\<lambda>d w. w),
      mac_copy = (\<lambda>d w. (Some w, Suc w)),
      mac_reset = (\<lambda>d w. (1, w)),
      mac_size = (\<lambda>d w. (4, w)),
      mac_init = (\<lambda>d w. (1, w)),
      mac_update = (\<lambda>d bs n w. (1, w)),
      mac_final = (\<lambda>d out w. (1, w)),
      mac_ctrl = Some (\<lambda>d cmd args w. (if cmd = 1 then 1 else - 2, w)),
      mac_ctrl_str = None\<rparr>"

definition no_new_mac :: "nat EVP_MAC" where
  "no_new_mac = demo_mac\<lparr>mac_new := (\<lambda>w. (None, w))\<rparr>"

definition no_copy_mac :: "nat EVP_MAC" where
  "no_copy_mac = demo_mac\<lparr>mac_copy := (\<lambda>d w. (None, w))\<rparr>"

definition no_ctrl_mac :: "nat EVP_MAC" where
  "no_ctrl_mac = demo_mac\<lparr>mac_ctrl := None\<rparr>"

text \<open>A world with nothing allocated, where every allocation succeeds.\<close>

definition world0 :: "nat world" where
  "world0 = \<lparr>heap = [], alloc_plan = [], impl = 0, trace = []\<rparr>"

text \<open>
  A world after some use: a context of the method table \<open>m\<close> with private state 0 at
  address 0, a \<open>size_t\<close> of the caller at address 1 and a zeroed context at address 2.
\<close>

definition world_of :: "nat EVP_MAC \<Rightarrow> nat world" where
  "world_of m =
     \<lparr>heap = [Some (Obj_ctx \<lparr>meth = Some m, data = Some 0\<rparr>), Some (Obj_size 0),
              Some (Obj_ctx \<lparr>meth = None, data = None\<rparr>)],
      alloc_plan = [], impl = 1, trace = []\<rparr>"

text \<open>A decoder that knows one string, and one that returns more bytes than \<open>INT_MAX\<close>.\<close>

definition demo_decode :: "string option \<Rightarrow> byte list option" where
  "demo_decode hex = (if hex = Some ''00ff'' then Some [0x00, 0xFF] else None)"

definition huge_decode :: "string option \<Rightarrow> byte list option" where
  "huge_decode hex = Some (replicate 2147483648 0)"

section \<open>Properties\<close>

subsection \<open>Auxiliary facts\<close>

lemmas prog_defs = ret_def crash_def bindE_def log_event_def EVPerr_def

lemmas mem_defs = alloc_def OPENSSL_zalloc_ctx_def OPENSSL_free_def load_ctx_def store_ctx_def
  set_data_def set_meth_def get_data_def deref_meth_def get_meth_def store_size_def load_buf_def

lemmas call_defs = call_new_def call_free_def call_copy_def call_reset_def call_size_def
  call_init_def call_update_def call_final_def call_ctrl_def call_ctrl_str_def

lemmas demo_defs = demo_mac_def no_new_mac_def no_copy_mac_def no_ctrl_mac_def world0_def
  world_of_def demo_decode_def huge_decode_def alloc_succeeds_def cell_def

lemma cell_update [simp]:
  "cell (h[a := v]) b = (if b = a \<and> a < length h then v else cell h b)"
  by (simp add: cell_def)

lemma cell_append [simp]: "cell (h @ [v]) b = (if b = length h then v else cell h b)"
  by (simp add: cell_def nth_append)

lemma cell_live: "cell h a = Some ob \<Longrightarrow> a < length h"
  by (simp add: cell_def split: if_splits)

text \<open>Create never returns \<open>NULL\<close>: each of its two failures ends in a crash.\<close>

lemma EVP_MAC_CTX_new_alloc_failure:
  "\<not> alloc_succeeds s \<Longrightarrow> EVP_MAC_CTX_new mac s = Inl Null_Deref"
  by (simp add: EVP_MAC_CTX_new_def prog_defs mem_defs)

lemma EVP_MAC_CTX_new_construct_failure:
  "alloc_succeeds s \<Longrightarrow> fst (mac_new m (impl s)) = None \<Longrightarrow>
     EVP_MAC_CTX_new (Some m) s = Inl Null_Deref"
  by (auto simp add: EVP_MAC_CTX_new_def prog_defs mem_defs call_defs split: prod.splits)

lemma EVP_MAC_CTX_new_not_null: "EVP_MAC_CTX_new mac s \<noteq> Inr (None, s')"
  by (auto simp add: EVP_MAC_CTX_new_def prog_defs mem_defs call_defs
      split: option.splits sum.splits prod.splits if_splits)

lemma EVP_MAC_CTX_new_success:
  "alloc_succeeds s \<Longrightarrow> mac_new m (impl s) = (Some d, w) \<Longrightarrow>
     EVP_MAC_CTX_new (Some m) s =
       Inr (Some (length (heap s)),
            s\<lparr>heap := heap s @ [Some (Obj_ctx \<lparr>meth = Some m, data = Some d\<rparr>)],
              alloc_plan := tl (alloc_plan s), impl := w, trace := trace s @ [Ev_new]\<rparr>)"
  by (simp add: EVP_MAC_CTX_new_def prog_defs mem_defs call_defs)

text \<open>The router leaves the heap as it is.\<close>

lemma EVP_MAC_ctrl_heap:
  "EVP_MAC_ctrl ctx cmd args s = Inr (r, s') \<Longrightarrow> heap s' = heap s"
  by (auto simp add: EVP_MAC_ctrl_def prog_defs mem_defs call_defs
      split: prod.splits option.splits sum.splits if_splits obj.splits)

text \<open>The router returns whenever its context is \<open>NULL\<close> or live.\<close>

lemma EVP_MAC_ctrl_returns:
  "ctx = None \<or> (\<exists>a c. ctx = Some a \<and> cell (heap s) a = Some (Obj_ctx c)) \<Longrightarrow>
     \<exists>r s'. EVP_MAC_ctrl ctx cmd args s = Inr (r, s')"
  by (auto simp add: EVP_MAC_ctrl_def prog_defs mem_defs call_defs
      split: option.splits prod.splits)

text \<open>The one-shot operation crashes with Create.\<close>

lemma EVP_MAC_oneshot_create_failure:
  "\<not> alloc_succeeds s \<or> fst (mac_new m (impl s)) = None \<Longrightarrow>
     EVP_MAC_oneshot set_key (Some m) key keylen bs datalen out poutlen s = Inl Null_Deref"
proof -
  assume "\<not> alloc_succeeds s \<or> fst (mac_new m (impl s)) = None"
  then have "EVP_MAC_CTX_new (Some m) s = Inl Null_Deref"
    using EVP_MAC_CTX_new_alloc_failure EVP_MAC_CTX_new_construct_failure by blast
  then show ?thesis
    by (simp add: EVP_MAC_oneshot_def bindE_def)
qed

text \<open>Copy returns 0 only with a live destination whose private state is \<open>NULL\<close>.\<close>

lemma EVP_MAC_CTX_copy_zero:
  assumes "EVP_MAC_CTX_copy dst src s = Inr (0, s')"
  obtains a c where "dst = Some a" and "cell (heap s') a = Some (Obj_ctx c)" and "data c = None"
  using assms
  by (auto simp add: EVP_MAC_CTX_copy_def prog_defs mem_defs call_defs
      dest: cell_live split: prod.splits option.splits sum.splits if_splits obj.splits)

subsection \<open>Create\<close>

text \<open>
  C1. The claim: Create fails when the allocation of the context or the entry
  \<open>new\<close> fails, the partially allocated context is released and the caller receives
  \<open>NULL\<close>. The code releases the context and sets \<open>ctx\<close> to \<open>NULL\<close>, and then
  executes \<open>ctx->meth = mac\<close> on that \<open>NULL\<close>: with a method table whose \<open>new\<close>
  returns \<open>NULL\<close>, and with an allocation that fails, the call ends in a null
  dereference instead of returning.
\<close>

theorem EVP_MAC_CTX_new_failure_null_deref:
  "EVP_MAC_CTX_new (Some no_new_mac) world0 = Inl Null_Deref
   \<and> EVP_MAC_CTX_new (Some demo_mac) (world0\<lparr>alloc_plan := [False]\<rparr>) = Inl Null_Deref"
  by (simp add: EVP_MAC_CTX_new_def prog_defs mem_defs call_defs demo_defs)

subsection \<open>Final\<close>

text \<open>
  C2. For a live context with a method table and a live out-length destination, Final
  returns with the result of the entry \<open>size\<close> written to the destination, whatever
  the output buffer is; when the output buffer is \<open>NULL\<close> it returns 1 and the only
  entry it has called is \<open>size\<close>. With neither destination it returns 1 and changes
  nothing.
\<close>

theorem EVP_MAC_final_size_query:
  "(cell (heap s) a = Some (Obj_ctx c) \<and> meth c = Some m
      \<and> cell (heap s) p = Some (Obj_size n0) \<longrightarrow>
      (\<exists>r s'. EVP_MAC_final (Some a) out (Some p) s = Inr (r, s')
         \<and> cell (heap s') p = Some (Obj_size (fst (mac_size m (data c) (impl s))))
         \<and> (out = None \<longrightarrow>
              r = 1 \<and> impl s' = snd (mac_size m (data c) (impl s))
              \<and> trace s' = trace s @ [Ev_size (data c)])))
   \<and> EVP_MAC_final ctx None None s = Inr (1, s)"
  by (auto simp add: EVP_MAC_final_def prog_defs mem_defs call_defs
      dest: cell_live split: prod.splits option.splits)

theorem EVP_MAC_final_size_query_witness:
  "cell (heap (world_of demo_mac)) 0 = Some (Obj_ctx \<lparr>meth = Some demo_mac, data = Some 0\<rparr>)
   \<and> cell (heap (world_of demo_mac)) 1 = Some (Obj_size 0)
   \<and> (\<exists>r s'. EVP_MAC_final (Some 0) None (Some 1) (world_of demo_mac) = Inr (r, s')
         \<and> cell (heap s') 1 = Some (Obj_size 4) \<and> r = 1 \<and> impl s' = 1
         \<and> trace s' = [Ev_size (Some 0)])
   \<and> (\<exists>r s'. EVP_MAC_final (Some 0) (Some 7) (Some 1) (world_of demo_mac) = Inr (r, s')
         \<and> cell (heap s') 1 = Some (Obj_size 4))
   \<and> EVP_MAC_final (Some 0) None None (world_of demo_mac) = Inr (1, world_of demo_mac)"
  using EVP_MAC_final_size_query
    [of "world_of demo_mac" 0 "\<lparr>meth = Some demo_mac, data = Some 0\<rparr>" demo_mac 1 0 None "Some 0"]
    EVP_MAC_final_size_query
    [of "world_of demo_mac" 0 "\<lparr>meth = Some demo_mac, data = Some 0\<rparr>" demo_mac 1 0 "Some 7"]
  by (simp add: demo_defs)

subsection \<open>The control router\<close>

text \<open>
  C3. When the context is \<open>NULL\<close>, or its method table is \<open>NULL\<close>, or the table has
  no entry \<open>ctrl\<close>, the router returns -2, and all it has done is to report the error:
  no entry was called and the implementation's world is as before. Otherwise it calls
  the entry \<open>ctrl\<close> once, with the private state, the command and the arguments, and
  returns the entry's result.
\<close>

theorem EVP_MAC_ctrl_routing:
  "(ctx = None
      \<or> (\<exists>a c. ctx = Some a \<and> cell (heap s) a = Some (Obj_ctx c)
            \<and> (meth c = None \<or> (\<exists>m. meth c = Some m \<and> mac_ctrl m = None))) \<longrightarrow>
      EVP_MAC_ctrl ctx cmd args s =
        Inr (- 2, s\<lparr>trace := trace s @ [Ev_EVPerr EVP_F_EVP_MAC_CTRL EVP_R_COMMAND_NOT_SUPPORTED]\<rparr>))
   \<and> (cell (heap s) a = Some (Obj_ctx c) \<and> meth c = Some m \<and> mac_ctrl m = Some f
        \<and> f (data c) cmd args (impl s) = (r, w) \<longrightarrow>
        EVP_MAC_ctrl (Some a) cmd args s =
          Inr (r, s\<lparr>impl := w,
                     trace := trace s @ Ev_ctrl (data c) cmd args #
                       (if r = - 2
                        then [Ev_EVPerr EVP_F_EVP_MAC_CTRL EVP_R_COMMAND_NOT_SUPPORTED]
                        else [])\<rparr>))"
  by (auto simp add: EVP_MAC_ctrl_def prog_defs mem_defs call_defs)

theorem EVP_MAC_ctrl_routing_witness:
  "EVP_MAC_ctrl None 5 [] (world_of demo_mac) =
     Inr (- 2, (world_of demo_mac)
       \<lparr>trace := [Ev_EVPerr EVP_F_EVP_MAC_CTRL EVP_R_COMMAND_NOT_SUPPORTED]\<rparr>)
   \<and> EVP_MAC_ctrl (Some 2) 5 [] (world_of demo_mac) =
     Inr (- 2, (world_of demo_mac)
       \<lparr>trace := [Ev_EVPerr EVP_F_EVP_MAC_CTRL EVP_R_COMMAND_NOT_SUPPORTED]\<rparr>)
   \<and> EVP_MAC_ctrl (Some 0) 1 [] (world_of no_ctrl_mac) =
     Inr (- 2, (world_of no_ctrl_mac)
       \<lparr>trace := [Ev_EVPerr EVP_F_EVP_MAC_CTRL EVP_R_COMMAND_NOT_SUPPORTED]\<rparr>)
   \<and> EVP_MAC_ctrl (Some 0) 1 [Arg_size 16] (world_of demo_mac) =
     Inr (1, (world_of demo_mac)\<lparr>trace := [Ev_ctrl (Some 0) 1 [Arg_size 16]]\<rparr>)
   \<and> EVP_MAC_ctrl (Some 0) 9 [] (world_of demo_mac) =
     Inr (- 2, (world_of demo_mac)
       \<lparr>trace := [Ev_ctrl (Some 0) 9 [],
                  Ev_EVPerr EVP_F_EVP_MAC_CTRL EVP_R_COMMAND_NOT_SUPPORTED]\<rparr>)"
proof -
  let ?w = "world_of demo_mac"
  let ?e = "[Ev_EVPerr EVP_F_EVP_MAC_CTRL EVP_R_COMMAND_NOT_SUPPORTED]"
  have "EVP_MAC_ctrl None 5 [] ?w = Inr (- 2, ?w\<lparr>trace := ?e\<rparr>)"
    using EVP_MAC_ctrl_routing [where ctx = None and s = ?w and cmd = 5 and args = "[]",
        THEN conjunct1]
    by (simp add: demo_defs)
  moreover have "EVP_MAC_ctrl (Some 2) 5 [] ?w = Inr (- 2, ?w\<lparr>trace := ?e\<rparr>)"
    using EVP_MAC_ctrl_routing [where ctx = "Some 2" and s = ?w and cmd = 5 and args = "[]",
        THEN conjunct1]
    by (simp add: demo_defs)
  moreover have "EVP_MAC_ctrl (Some 0) 1 [] (world_of no_ctrl_mac) =
      Inr (- 2, (world_of no_ctrl_mac)\<lparr>trace := ?e\<rparr>)"
    using EVP_MAC_ctrl_routing [where ctx = "Some 0" and s = "world_of no_ctrl_mac" and cmd = 1
        and args = "[]", THEN conjunct1]
    by (simp add: demo_defs)
  moreover have "EVP_MAC_ctrl (Some 0) 1 [Arg_size 16] ?w =
      Inr (1, ?w\<lparr>trace := [Ev_ctrl (Some 0) 1 [Arg_size 16]]\<rparr>)"
    using EVP_MAC_ctrl_routing [where s = ?w and cmd = 1 and args = "[Arg_size 16]"
        and a = 0 and c = "\<lparr>meth = Some demo_mac, data = Some 0\<rparr>" and m = demo_mac
        and f = "\<lambda>d cmd args w. (if cmd = 1 then 1 else - 2, w)" and r = 1 and w = 1,
        THEN conjunct2]
    by (simp add: demo_defs)
  moreover have "EVP_MAC_ctrl (Some 0) 9 [] ?w =
      Inr (- 2, ?w\<lparr>trace := Ev_ctrl (Some 0) 9 [] # ?e\<rparr>)"
    using EVP_MAC_ctrl_routing [where s = ?w and cmd = 9 and args = "[]"
        and a = 0 and c = "\<lparr>meth = Some demo_mac, data = Some 0\<rparr>" and m = demo_mac
        and f = "\<lambda>d cmd args w. (if cmd = 1 then 1 else - 2, w)" and r = "- 2" and w = 1,
        THEN conjunct2]
    by (simp add: demo_defs)
  ultimately show ?thesis
    by simp
qed

subsection \<open>One-shot computation\<close>

text \<open>
  C4. The claim: the one-shot operation stops at the first failing step and returns 0,
  returns 1 only when every step succeeded, and releases its context on every path.
  Two inputs show what the code does instead. When Create fails (here: \<open>new\<close> returns
  \<open>NULL\<close>) the call crashes inside Create and returns nothing. When the set-key
  command fails with -2 (here: the method table has no entry \<open>ctrl\<close>) the test
  \<open>!EVP_MAC_ctrl(...)\<close> takes the step for a success: Update and Final run, and the
  result is 1.
\<close>

theorem EVP_MAC_oneshot_failures:
  "EVP_MAC_oneshot 1 (Some no_new_mac)
       (Some [1, 2]) 2 (Some [97, 98, 99]) 3 (Some 7) None world0 = Inl Null_Deref
   \<and> EVP_MAC_oneshot 1 (Some no_ctrl_mac)
       (Some [1, 2]) 2 (Some [97, 98, 99]) 3 (Some 7) None world0 =
       Inr (1, \<lparr>heap = [None], alloc_plan = [], impl = 1,
                trace = [Ev_new, Ev_init (Some 0),
                         Ev_EVPerr EVP_F_EVP_MAC_CTRL EVP_R_COMMAND_NOT_SUPPORTED,
                         Ev_update (Some 0) (Some [97, 98, 99]) 3,
                         Ev_final (Some 0) (Some 7), Ev_free (Some 0), Ev_released 0]\<rparr>)"
  by (simp add: EVP_MAC_oneshot_def EVP_MAC_CTX_new_def EVP_MAC_init_def EVP_MAC_ctrl_def
      EVP_MAC_update_def EVP_MAC_final_def EVP_MAC_CTX_free_def evp_mac_ctx_cleanup_def
      prog_defs mem_defs call_defs demo_defs)

subsection \<open>The hex and string wrappers\<close>

text \<open>
  C5. The hex wrapper returns 0 when the decoder gives no buffer (the string does not
  decode, or the buffer cannot be allocated), and nothing is forwarded. When the
  decoded length exceeds \<open>INT_MAX\<close> it returns -1, and all it has done is to release
  the buffer. Otherwise it hands the decoded bytes and their number to the router and,
  when the router returns, returns the router's result. Whenever a buffer was
  produced, its release is the last thing that happens before the return.
\<close>

theorem EVP_MAC_hex2ctrl_cases:
  "(decode hex = None \<longrightarrow> EVP_MAC_hex2ctrl decode ctx cmd hex s = Inr (0, s))
   \<and> (decode hex = Some bs \<and> \<not> alloc_succeeds s \<longrightarrow>
        EVP_MAC_hex2ctrl decode ctx cmd hex s = Inr (0, s\<lparr>alloc_plan := tl (alloc_plan s)\<rparr>))
   \<and> (decode hex = Some bs \<and> alloc_succeeds s \<and> int (length bs) > INT_MAX \<longrightarrow>
        EVP_MAC_hex2ctrl decode ctx cmd hex s =
          Inr (- 1, s\<lparr>heap := heap s @ [None], alloc_plan := tl (alloc_plan s),
                      trace := trace s @ [Ev_released (length (heap s))]\<rparr>))
   \<and> (decode hex = Some bs \<and> alloc_succeeds s \<and> int (length bs) \<le> INT_MAX
        \<and> (ctx = None \<or> (\<exists>a c. ctx = Some a \<and> cell (heap s) a = Some (Obj_ctx c))) \<longrightarrow>
        (\<exists>rv s2.
           EVP_MAC_ctrl ctx cmd [Arg_mem (Some bs), Arg_size (length bs)]
             (s\<lparr>heap := heap s @ [Some (Obj_buf bs)], alloc_plan := tl (alloc_plan s)\<rparr>)
             = Inr (rv, s2)
           \<and> EVP_MAC_hex2ctrl decode ctx cmd hex s =
               Inr (rv, s2\<lparr>heap := (heap s2)[length (heap s) := None],
                            trace := trace s2 @ [Ev_released (length (heap s))]\<rparr>)))"
proof (intro conjI impI)
  assume "decode hex = None"
  then show "EVP_MAC_hex2ctrl decode ctx cmd hex s = Inr (0, s)"
    by (simp add: EVP_MAC_hex2ctrl_def OPENSSL_hexstr2buf_def prog_defs)
next
  assume "decode hex = Some bs \<and> \<not> alloc_succeeds s"
  then show "EVP_MAC_hex2ctrl decode ctx cmd hex s = Inr (0, s\<lparr>alloc_plan := tl (alloc_plan s)\<rparr>)"
    by (simp add: EVP_MAC_hex2ctrl_def OPENSSL_hexstr2buf_def prog_defs alloc_def)
next
  assume "decode hex = Some bs \<and> alloc_succeeds s \<and> int (length bs) > INT_MAX"
  then show "EVP_MAC_hex2ctrl decode ctx cmd hex s =
          Inr (- 1, s\<lparr>heap := heap s @ [None], alloc_plan := tl (alloc_plan s),
                      trace := trace s @ [Ev_released (length (heap s))]\<rparr>)"
    by (simp add: EVP_MAC_hex2ctrl_def OPENSSL_hexstr2buf_def prog_defs alloc_def
        OPENSSL_free_def)
next
  let ?s1 = "s\<lparr>heap := heap s @ [Some (Obj_buf bs)], alloc_plan := tl (alloc_plan s)\<rparr>"
  let ?args = "[Arg_mem (Some bs), Arg_size (length bs)]"
  assume a: "decode hex = Some bs \<and> alloc_succeeds s \<and> int (length bs) \<le> INT_MAX
        \<and> (ctx = None \<or> (\<exists>a c. ctx = Some a \<and> cell (heap s) a = Some (Obj_ctx c)))"
  have keep: "cell (heap ?s1) b = Some ob" if "cell (heap s) b = Some ob" for b ob
    using that cell_live [OF that] by simp
  from a have "ctx = None \<or> (\<exists>a c. ctx = Some a \<and> cell (heap ?s1) a = Some (Obj_ctx c))"
    using keep by blast
  then obtain rv s2 where r: "EVP_MAC_ctrl ctx cmd ?args ?s1 = Inr (rv, s2)"
    using EVP_MAC_ctrl_returns by blast
  then have "heap s2 = heap ?s1"
    by (rule EVP_MAC_ctrl_heap)
  with a r have "EVP_MAC_hex2ctrl decode ctx cmd hex s =
          Inr (rv, s2\<lparr>heap := (heap s2)[length (heap s) := None],
                       trace := trace s2 @ [Ev_released (length (heap s))]\<rparr>)"
    by (simp add: EVP_MAC_hex2ctrl_def OPENSSL_hexstr2buf_def prog_defs alloc_def
        OPENSSL_free_def load_buf_def)
  with r show "\<exists>rv s2. EVP_MAC_ctrl ctx cmd ?args ?s1 = Inr (rv, s2)
           \<and> EVP_MAC_hex2ctrl decode ctx cmd hex s =
               Inr (rv, s2\<lparr>heap := (heap s2)[length (heap s) := None],
                            trace := trace s2 @ [Ev_released (length (heap s))]\<rparr>)"
    by blast
qed

theorem EVP_MAC_hex2ctrl_cases_witness:
  "EVP_MAC_hex2ctrl demo_decode (Some 0) 1 (Some ''gg'') (world_of demo_mac) =
     Inr (0, world_of demo_mac)
   \<and> EVP_MAC_hex2ctrl demo_decode (Some 0) 1 (Some ''00ff'')
       ((world_of demo_mac)\<lparr>alloc_plan := [False]\<rparr>) = Inr (0, world_of demo_mac)
   \<and> EVP_MAC_hex2ctrl huge_decode (Some 0) 1 (Some ''00ff'') (world_of demo_mac) =
       Inr (- 1, (world_of demo_mac)
         \<lparr>heap := heap (world_of demo_mac) @ [None], trace := [Ev_released 3]\<rparr>)
   \<and> EVP_MAC_hex2ctrl demo_decode (Some 0) 1 (Some ''00ff'') (world_of demo_mac) =
       Inr (1, (world_of demo_mac)
         \<lparr>heap := heap (world_of demo_mac) @ [None],
          trace := [Ev_ctrl (Some 0) 1 [Arg_mem (Some [0x00, 0xFF]), Arg_size 2],
                    Ev_released 3]\<rparr>)"
proof -
  let ?w = "world_of demo_mac"
  have r: "EVP_MAC_ctrl (Some 0) 1 [Arg_mem (Some [0x00, 0xFF]), Arg_size (length [0x00, 0xFF :: byte])]
             (?w\<lparr>heap := heap ?w @ [Some (Obj_buf [0x00, 0xFF])], alloc_plan := tl (alloc_plan ?w)\<rparr>)
           = Inr (1, ?w\<lparr>heap := heap ?w @ [Some (Obj_buf [0x00, 0xFF])],
                        trace := [Ev_ctrl (Some 0) 1 [Arg_mem (Some [0x00, 0xFF]), Arg_size 2]]\<rparr>)"
    by (simp add: EVP_MAC_ctrl_def prog_defs mem_defs call_defs demo_defs)
  have live: "cell (heap ?w) 0 = Some (Obj_ctx \<lparr>meth = Some demo_mac, data = Some 0\<rparr>)"
    by (simp add: demo_defs)
  have "EVP_MAC_hex2ctrl demo_decode (Some 0) 1 (Some ''gg'') ?w = Inr (0, ?w)"
    using EVP_MAC_hex2ctrl_cases [where decode = demo_decode and hex = "Some ''gg''"
        and ctx = "Some 0" and cmd = 1 and s = ?w, THEN conjunct1]
    by (simp add: demo_defs)
  moreover have "EVP_MAC_hex2ctrl demo_decode (Some 0) 1 (Some ''00ff'')
       (?w\<lparr>alloc_plan := [False]\<rparr>) = Inr (0, ?w)"
    using EVP_MAC_hex2ctrl_cases [where decode = demo_decode and hex = "Some ''00ff''"
        and bs = "[0x00, 0xFF]" and ctx = "Some 0" and cmd = 1
        and s = "?w\<lparr>alloc_plan := [False]\<rparr>", THEN conjunct2, THEN conjunct1]
    by (simp add: demo_defs)
  moreover have "EVP_MAC_hex2ctrl huge_decode (Some 0) 1 (Some ''00ff'') ?w =
       Inr (- 1, ?w\<lparr>heap := heap ?w @ [None], trace := [Ev_released 3]\<rparr>)"
    using EVP_MAC_hex2ctrl_cases [where decode = huge_decode and hex = "Some ''00ff''"
        and bs = "replicate 2147483648 0" and ctx = "Some 0" and cmd = 1 and s = ?w,
        THEN conjunct2, THEN conjunct2, THEN conjunct1]
    by (simp add: demo_defs INT_MAX_def)
  moreover have "EVP_MAC_hex2ctrl demo_decode (Some 0) 1 (Some ''00ff'') ?w =
       Inr (1, ?w\<lparr>heap := heap ?w @ [None],
          trace := [Ev_ctrl (Some 0) 1 [Arg_mem (Some [0x00, 0xFF]), Arg_size 2],
                    Ev_released 3]\<rparr>)"
    using EVP_MAC_hex2ctrl_cases [where decode = demo_decode and hex = "Some ''00ff''"
        and bs = "[0x00, 0xFF]" and ctx = "Some 0" and cmd = 1 and s = ?w,
        THEN conjunct2, THEN conjunct2, THEN conjunct2] r live
    by (auto simp add: demo_decode_def INT_MAX_def alloc_succeeds_def world_of_def)
  ultimately show ?thesis
    by simp
qed

text \<open>
  C8. For a text longer than \<open>INT_MAX\<close> bytes the string wrapper returns -1 and
  nothing has happened: the router was not called. For every other text it is the call
  of the router with the text and its length in bytes as the arguments.
\<close>

theorem EVP_MAC_str2ctrl_cases:
  "(int (length v) > INT_MAX \<longrightarrow> EVP_MAC_str2ctrl ctx cmd (Some v) s = Inr (- 1, s))
   \<and> (int (length v) \<le> INT_MAX \<longrightarrow>
        EVP_MAC_str2ctrl ctx cmd (Some v) s =
          EVP_MAC_ctrl ctx cmd [Arg_str (Some v), Arg_size (length v)] s)"
  by (simp add: EVP_MAC_str2ctrl_def strlen_def prog_defs)

theorem EVP_MAC_str2ctrl_cases_witness:
  "EVP_MAC_str2ctrl (Some 0) 1 (Some (replicate 2147483648 CHR ''a'')) (world_of demo_mac) =
     Inr (- 1, world_of demo_mac)
   \<and> EVP_MAC_str2ctrl (Some 0) 1 (Some ''key'') (world_of demo_mac) =
       EVP_MAC_ctrl (Some 0) 1 [Arg_str (Some ''key''), Arg_size (length ''key'')]
         (world_of demo_mac)"
  using EVP_MAC_str2ctrl_cases [of "replicate 2147483648 CHR ''a''" "Some 0" 1 "world_of demo_mac"]
    EVP_MAC_str2ctrl_cases [of "''key''" "Some 0" 1 "world_of demo_mac"]
  by (simp add: INT_MAX_def)

subsection \<open>Copy, Free and Size\<close>

text \<open>
  C6. For a live source and a live destination context: when the source has no private
  state, Copy returns 1 and the destination holds the source's fields, so the same
  reference to the method table and no private state. When the source has private
  state (and so a method table), Copy calls the entry \<open>copy\<close> on it once, the
  destination holds the source's reference to the method table and the pointer the
  entry returned, and the result is 0 when that pointer is \<open>NULL\<close> and 1 otherwise.
\<close>

theorem EVP_MAC_CTX_copy_cases:
  "(cell (heap s) src = Some (Obj_ctx c) \<and> cell (heap s) dst = Some (Obj_ctx c0)
      \<and> data c = None \<longrightarrow>
      EVP_MAC_CTX_copy (Some dst) (Some src) s =
        Inr (1, s\<lparr>heap := (heap s)[dst := Some (Obj_ctx c)]\<rparr>))
   \<and> (cell (heap s) src = Some (Obj_ctx c) \<and> cell (heap s) dst = Some (Obj_ctx c0)
        \<and> data c \<noteq> None \<and> meth c = Some m \<and> mac_copy m (data c) (impl s) = (d, w) \<longrightarrow>
        EVP_MAC_CTX_copy (Some dst) (Some src) s =
          Inr (if d = None then 0 else 1,
               s\<lparr>heap := (heap s)[dst := Some (Obj_ctx (c\<lparr>data := d\<rparr>))], impl := w,
                  trace := trace s @ Ev_copy (data c) #
                    (if d = None
                     then [Ev_EVPerr EVP_F_EVP_MAC_CTX_COPY ERR_R_MALLOC_FAILURE] else [])\<rparr>))"
  by (auto simp add: EVP_MAC_CTX_copy_def prog_defs mem_defs call_defs dest: cell_live)

theorem EVP_MAC_CTX_copy_cases_witness:
  "EVP_MAC_CTX_copy (Some 0) (Some 2) (world_of demo_mac) =
     Inr (1, (world_of demo_mac)
       \<lparr>heap := [Some (Obj_ctx \<lparr>meth = None, data = None\<rparr>), Some (Obj_size 0),
                 Some (Obj_ctx \<lparr>meth = None, data = None\<rparr>)]\<rparr>)
   \<and> EVP_MAC_CTX_copy (Some 2) (Some 0) (world_of demo_mac) =
     Inr (1, (world_of demo_mac)
       \<lparr>heap := [Some (Obj_ctx \<lparr>meth = Some demo_mac, data = Some 0\<rparr>), Some (Obj_size 0),
                 Some (Obj_ctx \<lparr>meth = Some demo_mac, data = Some 1\<rparr>)],
        impl := 2, trace := [Ev_copy (Some 0)]\<rparr>)
   \<and> EVP_MAC_CTX_copy (Some 2) (Some 0) (world_of no_copy_mac) =
     Inr (0, (world_of no_copy_mac)
       \<lparr>heap := [Some (Obj_ctx \<lparr>meth = Some no_copy_mac, data = Some 0\<rparr>), Some (Obj_size 0),
                 Some (Obj_ctx \<lparr>meth = Some no_copy_mac, data = None\<rparr>)],
        trace := [Ev_copy (Some 0), Ev_EVPerr EVP_F_EVP_MAC_CTX_COPY ERR_R_MALLOC_FAILURE]\<rparr>)"
proof -
  have "EVP_MAC_CTX_copy (Some 0) (Some 2) (world_of demo_mac) =
     Inr (1, (world_of demo_mac)
       \<lparr>heap := [Some (Obj_ctx \<lparr>meth = None, data = None\<rparr>), Some (Obj_size 0),
                 Some (Obj_ctx \<lparr>meth = None, data = None\<rparr>)]\<rparr>)"
    using EVP_MAC_CTX_copy_cases [where s = "world_of demo_mac" and src = 2 and dst = 0
        and c = "\<lparr>meth = None, data = None\<rparr>"
        and ?c0.0 = "\<lparr>meth = Some demo_mac, data = Some 0\<rparr>", THEN conjunct1]
    by (simp add: world_of_def cell_def)
  moreover have "EVP_MAC_CTX_copy (Some 2) (Some 0) (world_of demo_mac) =
     Inr (1, (world_of demo_mac)
       \<lparr>heap := [Some (Obj_ctx \<lparr>meth = Some demo_mac, data = Some 0\<rparr>), Some (Obj_size 0),
                 Some (Obj_ctx \<lparr>meth = Some demo_mac, data = Some 1\<rparr>)],
        impl := 2, trace := [Ev_copy (Some 0)]\<rparr>)"
    using EVP_MAC_CTX_copy_cases [where s = "world_of demo_mac" and src = 0 and dst = 2
        and ?c0.0 = "\<lparr>meth = None, data = None\<rparr>"
        and c = "\<lparr>meth = Some demo_mac, data = Some 0\<rparr>" and m = demo_mac
        and d = "Some 1" and w = 2, THEN conjunct2]
    by (simp add: world_of_def cell_def demo_mac_def)
  moreover have "EVP_MAC_CTX_copy (Some 2) (Some 0) (world_of no_copy_mac) =
     Inr (0, (world_of no_copy_mac)
       \<lparr>heap := [Some (Obj_ctx \<lparr>meth = Some no_copy_mac, data = Some 0\<rparr>), Some (Obj_size 0),
                 Some (Obj_ctx \<lparr>meth = Some no_copy_mac, data = None\<rparr>)],
        trace := [Ev_copy (Some 0), Ev_EVPerr EVP_F_EVP_MAC_CTX_COPY ERR_R_MALLOC_FAILURE]\<rparr>)"
    using EVP_MAC_CTX_copy_cases [where s = "world_of no_copy_mac" and src = 0 and dst = 2
        and ?c0.0 = "\<lparr>meth = None, data = None\<rparr>"
        and c = "\<lparr>meth = Some no_copy_mac, data = Some 0\<rparr>" and m = no_copy_mac
        and d = None and w = 1, THEN conjunct2]
    by (simp add: world_of_def cell_def no_copy_mac_def)
  ultimately show ?thesis
    by simp
qed

text \<open>
  C7. Free of \<open>NULL\<close> changes nothing. Free of a live context without private state
  releases the context and calls no entry. Free of a live context with private state
  (and so a method table) calls the entry \<open>free\<close> on that state once and then releases
  the context.
\<close>

theorem EVP_MAC_CTX_free_cases:
  "EVP_MAC_CTX_free None s = Inr ((), s)
   \<and> (cell (heap s) a = Some (Obj_ctx c) \<and> data c = None \<longrightarrow>
        EVP_MAC_CTX_free (Some a) s =
          Inr ((), s\<lparr>heap := (heap s)[a := None], trace := trace s @ [Ev_released a]\<rparr>))
   \<and> (cell (heap s) a = Some (Obj_ctx c) \<and> data c = Some d \<and> meth c = Some m \<longrightarrow>
        EVP_MAC_CTX_free (Some a) s =
          Inr ((), s\<lparr>heap := (heap s)[a := None], impl := mac_free m (Some d) (impl s),
                     trace := trace s @ [Ev_free (Some d), Ev_released a]\<rparr>))"
  by (auto simp add: EVP_MAC_CTX_free_def evp_mac_ctx_cleanup_def prog_defs mem_defs call_defs
      dest: cell_live)

theorem EVP_MAC_CTX_free_cases_witness:
  "EVP_MAC_CTX_free None (world_of demo_mac) = Inr ((), world_of demo_mac)
   \<and> EVP_MAC_CTX_free (Some 2) (world_of demo_mac) =
     Inr ((), (world_of demo_mac)
       \<lparr>heap := [Some (Obj_ctx \<lparr>meth = Some demo_mac, data = Some 0\<rparr>), Some (Obj_size 0), None],
        trace := [Ev_released 2]\<rparr>)
   \<and> EVP_MAC_CTX_free (Some 0) (world_of demo_mac) =
     Inr ((), (world_of demo_mac)
       \<lparr>heap := [None, Some (Obj_size 0), Some (Obj_ctx \<lparr>meth = None, data = None\<rparr>)],
        trace := [Ev_free (Some 0), Ev_released 0]\<rparr>)"
  using EVP_MAC_CTX_free_cases [where s = "world_of demo_mac" and a = 2
      and c = "\<lparr>meth = None, data = None\<rparr>", THEN conjunct2, THEN conjunct1]
    EVP_MAC_CTX_free_cases [where s = "world_of demo_mac" and a = 0
      and c = "\<lparr>meth = Some demo_mac, data = Some 0\<rparr>" and d = 0 and m = demo_mac,
      THEN conjunct2, THEN conjunct2]
    EVP_MAC_CTX_free_cases [where s = "world_of demo_mac", THEN conjunct1]
  by (simp add: world_of_def cell_def demo_mac_def)

text \<open>
  C9. Size of a live context with private state (and so a method table) is the result
  of the entry \<open>size\<close> on that state; Size of a live context without private state is
  0, and no entry is called.
\<close>

theorem EVP_MAC_size_cases:
  "(cell (heap s) a = Some (Obj_ctx c) \<and> data c \<noteq> None \<and> meth c = Some m \<longrightarrow>
      EVP_MAC_size (Some a) s =
        Inr (fst (mac_size m (data c) (impl s)),
             s\<lparr>impl := snd (mac_size m (data c) (impl s)),
               trace := trace s @ [Ev_size (data c)]\<rparr>))
   \<and> (cell (heap s) a = Some (Obj_ctx c) \<and> data c = None \<longrightarrow>
        EVP_MAC_size (Some a) s = Inr (0, s))"
  by (auto simp add: EVP_MAC_size_def prog_defs mem_defs call_defs split: prod.splits)

theorem EVP_MAC_size_cases_witness:
  "EVP_MAC_size (Some 0) (world_of demo_mac) =
     Inr (4, (world_of demo_mac)\<lparr>trace := [Ev_size (Some 0)]\<rparr>)
   \<and> EVP_MAC_size (Some 2) (world_of demo_mac) = Inr (0, world_of demo_mac)"
  using EVP_MAC_size_cases [where s = "world_of demo_mac" and a = 0
      and c = "\<lparr>meth = Some demo_mac, data = Some 0\<rparr>" and m = demo_mac, THEN conjunct1]
    EVP_MAC_size_cases [where s = "world_of demo_mac" and a = 2
      and c = "\<lparr>meth = None, data = None\<rparr>", THEN conjunct2]
  by (simp add: world_of_def cell_def demo_mac_def)

text \<open>
  C10. When Copy returns 0 (which it does only after the entry \<open>copy\<close> returned
  \<open>NULL\<close>), the destination is a live context whose pointer to the private state is
  \<open>NULL\<close>. Reset of the destination then returns 1 and changes nothing, and Free of
  the destination releases the context and calls no entry.
\<close>

theorem EVP_MAC_CTX_copy_failure_safe:
  assumes "EVP_MAC_CTX_copy dst src s = Inr (0, s')"
  shows "\<exists>a c. dst = Some a \<and> cell (heap s') a = Some (Obj_ctx c) \<and> data c = None
       \<and> EVP_MAC_reset dst s' = Inr (1, s')
       \<and> EVP_MAC_CTX_free dst s' =
           Inr ((), s'\<lparr>heap := (heap s')[a := None], trace := trace s' @ [Ev_released a]\<rparr>)"
proof -
  from assms obtain a c where live: "dst = Some a" "cell (heap s') a = Some (Obj_ctx c)"
    and null: "data c = None"
    by (rule EVP_MAC_CTX_copy_zero)
  from live null have "EVP_MAC_reset dst s' = Inr (1, s')"
    by (simp add: EVP_MAC_reset_def prog_defs mem_defs)
  moreover from live null have "EVP_MAC_CTX_free dst s' =
      Inr ((), s'\<lparr>heap := (heap s')[a := None], trace := trace s' @ [Ev_released a]\<rparr>)"
    by (simp add: EVP_MAC_CTX_free_def evp_mac_ctx_cleanup_def prog_defs mem_defs)
  ultimately show ?thesis
    using live null by simp
qed

theorem EVP_MAC_CTX_copy_failure_safe_witness:
  "EVP_MAC_CTX_copy (Some 2) (Some 0) (world_of no_copy_mac) =
     Inr (0, (world_of no_copy_mac)
       \<lparr>heap := [Some (Obj_ctx \<lparr>meth = Some no_copy_mac, data = Some 0\<rparr>), Some (Obj_size 0),
                 Some (Obj_ctx \<lparr>meth = Some no_copy_mac, data = None\<rparr>)],
        trace := [Ev_copy (Some 0), Ev_EVPerr EVP_F_EVP_MAC_CTX_COPY ERR_R_MALLOC_FAILURE]\<rparr>)
   \<and> EVP_MAC_CTX_free (Some 2) ((world_of no_copy_mac)
       \<lparr>heap := [Some (Obj_ctx \<lparr>meth = Some no_copy_mac, data = Some 0\<rparr>), Some (Obj_size 0),
                 Some (Obj_ctx \<lparr>meth = Some no_copy_mac, data = None\<rparr>)],
        trace := [Ev_copy (Some 0), Ev_EVPerr EVP_F_EVP_MAC_CTX_COPY ERR_R_MALLOC_FAILURE]\<rparr>) =
     Inr ((), (world_of no_copy_mac)
       \<lparr>heap := [Some (Obj_ctx \<lparr>meth = Some no_copy_mac, data = Some 0\<rparr>), Some (Obj_size 0),
                 None],
        trace := [Ev_copy (Some 0), Ev_EVPerr EVP_F_EVP_MAC_CTX_COPY ERR_R_MALLOC_FAILURE,
                  Ev_released 2]\<rparr>)"
proof -
  let ?w' = "(world_of no_copy_mac)
       \<lparr>heap := [Some (Obj_ctx \<lparr>meth = Some no_copy_mac, data = Some 0\<rparr>), Some (Obj_size 0),
                 Some (Obj_ctx \<lparr>meth = Some no_copy_mac, data = None\<rparr>)],
        trace := [Ev_copy (Some 0), Ev_EVPerr EVP_F_EVP_MAC_CTX_COPY ERR_R_MALLOC_FAILURE]\<rparr>"
  have failed: "EVP_MAC_CTX_copy (Some 2) (Some 0) (world_of no_copy_mac) = Inr (0, ?w')"
    by (simp add: EVP_MAC_CTX_copy_def prog_defs mem_defs call_defs world_of_def cell_def
        no_copy_mac_def)
  from EVP_MAC_CTX_copy_failure_safe [OF failed] failed show ?thesis
    by (auto simp add: world_of_def)
qed

end
